theory Spec2Isabelle
  imports Main "HOL-Library.Word"
begin

section \<open>Common types\<close>

text \<open>
  The sessions of \<^verbatim>\<open>ssl_session.inl\<close> and \<^verbatim>\<open>udp_client.cpp\<close> are modelled as records
  of their member variables. Every member function and every completion handler (the
  lambdas handed to Asio) is a function from the state before to the state after.

  \<^item> \<^verbatim>\<open>size_t\<close> and the \<^verbatim>\<open>uint64_t\<close> statistics are 64-bit words (an LP64 build), so
    \<^verbatim>\<open>+\<close>, \<^verbatim>\<open>-\<close> and \<^verbatim>\<open>2 * size\<close> wrap as they do in C++.
  \<^item> A \<^verbatim>\<open>std::vector<uint8_t>\<close> is a list of bytes; \<^verbatim>\<open>size()\<close> is its length read as
    a \<^verbatim>\<open>size_t\<close>. Allocation failure is not modelled.
  \<^item> What a function does to the outside (a user callback, an asynchronous operation
    handed to Asio, a socket call, a call into the server) is appended to a trace, in
    program order. A callback is logged together with the member variables as they are
    at the moment of the call, which is what the user's override can observe. What the
    override does in turn (it may call \<^verbatim>\<open>Send\<close> or \<^verbatim>\<open>Disconnect\<close>) is an operation of its
    own, not part of the function that made the call.
  \<^item> Each function runs as one step. The regions that \<^verbatim>\<open>Send\<close>, \<^verbatim>\<open>TrySend\<close> and
    \<^verbatim>\<open>ClearBuffers\<close> guard with the send lock are inside such a step.
  \<^item> A handler given to \<^verbatim>\<open>post\<close>, or to \<^verbatim>\<open>dispatch\<close> from a thread that is not running
    the serializer, is appended to the queue of posted handlers; \<^verbatim>\<open>dispatch\<close> from the
    serializer runs it on the spot.
  \<^item> The \<^verbatim>\<open>assert\<close> lines of \<^verbatim>\<open>Send\<close> are compiled out (\<^verbatim>\<open>NDEBUG\<close>), the build for
    which the \<^verbatim>\<open>if\<close> guards that follow them are written.
\<close>

type_synonym byte = "8 word"
type_synonym size_t = "64 word"
type_synonym uint64_t = "64 word"

definition vsize :: "'a list \<Rightarrow> size_t" where
  "vsize xs = word_of_nat (length xs)"

text \<open>\<^verbatim>\<open>std::vector::resize(n)\<close>: keeps the first \<^verbatim>\<open>n\<close> elements and pads with zeros.\<close>

definition vector_resize :: "nat \<Rightarrow> byte list \<Rightarrow> byte list" where
  "vector_resize n xs = take n xs @ replicate (n - length xs) 0"

datatype serializer = strand | io_service

subsection \<open>Error codes\<close>

text \<open>
  A \<^verbatim>\<open>std::error_code\<close> is a value and a category; \<^verbatim>\<open>ec == asio::error::eof\<close> compares
  both. The numeric values of the Asio and OpenSSL constants, the macro
  \<^verbatim>\<open>ERR_GET_REASON\<close> and the texts returned by \<^verbatim>\<open>name()\<close> and \<^verbatim>\<open>message()\<close> are not part of
  the sources at hand: they are the fields of a \<open>platform\<close> that every function using
  them takes as its first argument.
\<close>

datatype error_category =
  system_category | misc_category | ssl_category | stream_category | user_category string

datatype error_code = make_error_code (ec_value: int) (ec_category: error_category)

record platform =
  connection_aborted :: error_code
  connection_refused :: error_code
  connection_reset :: error_code
  eof :: error_code
  operation_aborted :: error_code
  stream_truncated :: error_code
  ERR_GET_REASON :: "int \<Rightarrow> int"
  SSL_R_DECRYPTION_FAILED_OR_BAD_RECORD_MAC :: int
  SSL_R_PROTOCOL_IS_SHUTDOWN :: int
  SSL_R_WRONG_VERSION_NUMBER :: int
  category_name :: "error_category \<Rightarrow> string"
  message :: "error_code \<Rightarrow> string"

text \<open>\<^verbatim>\<open>if (ec)\<close>: an error code is true when its value is not zero.\<close>

definition is_error :: "error_code \<Rightarrow> bool" where
  "is_error ec = (ec_value ec \<noteq> 0)"

text \<open>
  The throwing overloads of the socket calls raise \<^verbatim>\<open>asio::system_error\<close>. Which call
  fails is decided by the environment, a predicate on the calls. \<^verbatim>\<open>close()\<close> is taken to
  succeed: the environment is never asked about it.
\<close>

datatype sock_op =
  op_open | op_set_reuse_address | op_set_reuse_port | op_bind_endpoint | op_bind_any
  | op_set_no_delay | op_close

datatype exception = system_error sock_op

subsection \<open>Callbacks, asynchronous operations, events\<close>

type_synonym endpoint = "string \<times> nat"

text \<open>
  The virtual handlers a user overrides. \<open>onReceivedFrom\<close> and \<open>onSentTo\<close> are the UDP
  overloads of \<^verbatim>\<open>onReceived\<close> and \<^verbatim>\<open>onSent\<close>, which take an endpoint.
\<close>

datatype callback =
  onConnected | onHandshaked | onDisconnected
  | onReceived "byte list" | onReceivedFrom endpoint "byte list"
  | onSent size_t size_t | onSentTo endpoint size_t
  | onEmpty | onError int string string

text \<open>
  The operations handed to Asio. A read carries the size of the buffer it was given, a
  write the bytes it was given.
\<close>

datatype async_io =
  async_handshake | async_shutdown | async_read_some nat | async_write "byte list"
  | async_receive_from nat

datatype task = connect_handler | send_handler | disconnect_handler

text \<open>
  An event of the trace; \<open>'s\<close> is the record of member variables a callback sees.
  \<open>Async\<close> names the serializer the completion handler is bound to.
\<close>

datatype 's event =
  Call callback 's
  | Async serializer async_io
  | Socket sock_op
  | SendTo endpoint "byte list"
  | UnregisterSession nat

text \<open>The callbacks of a trace, and the asynchronous operations of a trace, in order.\<close>

fun callbacks :: "'s event list \<Rightarrow> callback list" where
  "callbacks [] = []"
| "callbacks (Call cb v # es) = cb # callbacks es"
| "callbacks (e # es) = callbacks es"

fun issued :: "'s event list \<Rightarrow> async_io list" where
  "issued [] = []"
| "issued (Async s io # es) = io # issued es"
| "issued (e # es) = issued es"

text \<open>The callbacks that deliver data: \<^verbatim>\<open>onReceived\<close> and \<^verbatim>\<open>onSent\<close>, in both forms.\<close>

fun data_callback :: "callback \<Rightarrow> bool" where
  "data_callback (onReceived bytes) = True"
| "data_callback (onReceivedFrom ep bytes) = True"
| "data_callback (onSent k pending) = True"
| "data_callback (onSentTo ep k) = True"
| "data_callback cb = False"

section \<open>The TLS session (ssl\_session.inl)\<close>

record ssl_session =
  ssl_id :: nat
  server_option_no_delay :: bool
  server_IsMultithread :: bool
  server_bytes_sent :: uint64_t
  server_bytes_received :: uint64_t
  ssl_connected :: bool
  ssl_handshaked :: bool
  ssl_bytes_sent :: uint64_t
  ssl_bytes_received :: uint64_t
  ssl_reciving :: bool
  ssl_recive_buffer :: "byte list"
  ssl_sending :: bool
  ssl_send_buffer_main :: "byte list"
  ssl_send_buffer_flush :: "byte list"
  ssl_send_buffer_flush_offset :: size_t

record ssl_world = ssl_session +
  ssl_trace :: "ssl_session event list"
  ssl_posted :: "(serializer \<times> task) list"

definition ssl_serializer :: "ssl_world \<Rightarrow> serializer" where
  "ssl_serializer w = (if server_IsMultithread w then strand else io_service)"

definition ssl_emit :: "ssl_session event \<Rightarrow> ssl_world \<Rightarrow> ssl_world" where
  "ssl_emit e w = w\<lparr>ssl_trace := ssl_trace w @ [e]\<rparr>"

definition ssl_call :: "callback \<Rightarrow> ssl_world \<Rightarrow> ssl_world" where
  "ssl_call cb w = ssl_emit (Call cb (ssl_session.truncate w)) w"

definition ssl_async :: "async_io \<Rightarrow> ssl_world \<Rightarrow> ssl_world" where
  "ssl_async io w = ssl_emit (Async (ssl_serializer w) io) w"

definition ssl_post :: "task \<Rightarrow> ssl_world \<Rightarrow> ssl_world" where
  "ssl_post t w = w\<lparr>ssl_posted := ssl_posted w @ [(ssl_serializer w, t)]\<rparr>"

text \<open>The constructor; \<open>CHUNK\<close> is a constant of the header.\<close>

definition SSLSession :: "size_t \<Rightarrow> nat \<Rightarrow> bool \<Rightarrow> bool \<Rightarrow> uint64_t \<Rightarrow> uint64_t \<Rightarrow> ssl_world" where
  "SSLSession CHUNK uuid no_delay multithread srv_sent srv_received =
     \<lparr>ssl_id = uuid,
      server_option_no_delay = no_delay,
      server_IsMultithread = multithread,
      server_bytes_sent = srv_sent,
      server_bytes_received = srv_received,
      ssl_connected = False,
      ssl_handshaked = False,
      ssl_bytes_sent = 0,
      ssl_bytes_received = 0,
      ssl_reciving = False,
      ssl_recive_buffer = replicate (unat (CHUNK + 1)) 0,
      ssl_sending = False,
      ssl_send_buffer_main = [],
      ssl_send_buffer_flush = [],
      ssl_send_buffer_flush_offset = 0,
      ssl_trace = [],
      ssl_posted = []\<rparr>"

definition SSLSession_SendError :: "platform \<Rightarrow> error_code \<Rightarrow> ssl_world \<Rightarrow> ssl_world" where
  "SSLSession_SendError K ec w =
     (if ec = connection_aborted K \<or> ec = connection_refused K \<or> ec = connection_reset K
         \<or> ec = eof K \<or> ec = operation_aborted K
      then w
      else if ec = stream_truncated K then w
      else if ec_category ec = ssl_category \<and>
              (ERR_GET_REASON K (ec_value ec) = SSL_R_DECRYPTION_FAILED_OR_BAD_RECORD_MAC K
               \<or> ERR_GET_REASON K (ec_value ec) = SSL_R_PROTOCOL_IS_SHUTDOWN K
               \<or> ERR_GET_REASON K (ec_value ec) = SSL_R_WRONG_VERSION_NUMBER K)
      then w
      else ssl_call (onError (ec_value ec) (category_name K (ec_category ec)) (message K ec)) w)"

definition SSLSession_ClearBuffers :: "ssl_world \<Rightarrow> ssl_world" where
  "SSLSession_ClearBuffers w =
     w\<lparr>ssl_send_buffer_main := [], ssl_send_buffer_flush := [],
       ssl_send_buffer_flush_offset := 0\<rparr>"

text \<open>The two lambdas of \<^verbatim>\<open>Disconnect\<close>: the posted handler and the shutdown completion.\<close>

definition SSLSession_disconnect_handler :: "ssl_world \<Rightarrow> ssl_world" where
  "SSLSession_disconnect_handler w =
     (if \<not> ssl_connected w then w else ssl_async async_shutdown w)"

definition SSLSession_shutdown_handler :: "error_code \<Rightarrow> ssl_world \<Rightarrow> ssl_world" where
  "SSLSession_shutdown_handler ec w =
     (if \<not> ssl_connected w then w
      else
        let w1 = ssl_emit (Socket op_close) w;
            w2 = SSLSession_ClearBuffers w1;
            w3 = w2\<lparr>ssl_handshaked := False\<rparr>;
            w4 = w3\<lparr>ssl_connected := False\<rparr>;
            w5 = ssl_call onDisconnected w4
        in ssl_emit (UnregisterSession (ssl_id w5)) w5)"

text \<open>
  \<open>on_serializer\<close> says whether the calling thread is running the session's serializer,
  which is what \<^verbatim>\<open>dispatch\<close> asks before it runs the handler on the spot.
\<close>

definition SSLSession_Disconnect :: "bool \<Rightarrow> bool \<Rightarrow> ssl_world \<Rightarrow> bool \<times> ssl_world" where
  "SSLSession_Disconnect on_serializer dispatch w =
     (if \<not> ssl_connected w then (False, w)
      else if dispatch \<and> on_serializer then (True, SSLSession_disconnect_handler w)
      else (True, ssl_post disconnect_handler w))"

definition SSLSession_TryReceive :: "ssl_world \<Rightarrow> ssl_world" where
  "SSLSession_TryReceive w =
     (if ssl_reciving w then w
      else if \<not> ssl_handshaked w then w
      else ssl_async (async_read_some (length (ssl_recive_buffer w))) (w\<lparr>ssl_reciving := True\<rparr>))"

definition SSLSession_async_receive_handler ::
  "platform \<Rightarrow> error_code \<Rightarrow> size_t \<Rightarrow> ssl_world \<Rightarrow> ssl_world" where
  "SSLSession_async_receive_handler K ec sz w =
     (let w1 = w\<lparr>ssl_reciving := False\<rparr> in
      if \<not> ssl_handshaked w1 then w1
      else
        let w2 =
          (if sz > 0 then
             let a = w1\<lparr>ssl_bytes_received := ssl_bytes_received w1 + sz\<rparr>;
                 b = a\<lparr>server_bytes_received := server_bytes_received a + sz\<rparr>;
                 c = (if vsize (ssl_recive_buffer b) = sz
                      then b\<lparr>ssl_recive_buffer :=
                               vector_resize (unat (2 * sz)) (ssl_recive_buffer b)\<rparr>
                      else b)
             in ssl_call (onReceived (take (unat sz) (ssl_recive_buffer c))) c
           else w1)
        in if \<not> is_error ec then SSLSession_TryReceive w2
           else snd (SSLSession_Disconnect True True (SSLSession_SendError K ec w2)))"

definition SSLSession_TrySend :: "ssl_world \<Rightarrow> ssl_world" where
  "SSLSession_TrySend w =
     (if ssl_sending w then w
      else if \<not> ssl_handshaked w then w
      else
        let w1 = (if ssl_send_buffer_flush w = []
                  then w\<lparr>ssl_send_buffer_flush := ssl_send_buffer_main w,
                         ssl_send_buffer_main := ssl_send_buffer_flush w,
                         ssl_send_buffer_flush_offset := 0\<rparr>
                  else w)
        in if ssl_send_buffer_flush w1 = [] then ssl_call onEmpty w1
           else ssl_async
                  (async_write (drop (unat (ssl_send_buffer_flush_offset w1))
                                     (ssl_send_buffer_flush w1)))
                  (w1\<lparr>ssl_sending := True\<rparr>))"

definition SSLSession_async_write_handler ::
  "platform \<Rightarrow> error_code \<Rightarrow> size_t \<Rightarrow> ssl_world \<Rightarrow> ssl_world" where
  "SSLSession_async_write_handler K ec sz w =
     (let w1 = w\<lparr>ssl_sending := False\<rparr> in
      if \<not> ssl_handshaked w1 then w1
      else
        let w2 =
          (if sz > 0 then
             let a = w1\<lparr>ssl_bytes_sent := ssl_bytes_sent w1 + sz\<rparr>;
                 b = a\<lparr>server_bytes_sent := server_bytes_sent a + sz\<rparr>;
                 c = b\<lparr>ssl_send_buffer_flush_offset := ssl_send_buffer_flush_offset b + sz\<rparr>;
                 d = (if ssl_send_buffer_flush_offset c = vsize (ssl_send_buffer_flush c)
                      then c\<lparr>ssl_send_buffer_flush := [], ssl_send_buffer_flush_offset := 0\<rparr>
                      else c)
             in ssl_call (onSent sz (vsize (ssl_send_buffer_flush d)
                                        - ssl_send_buffer_flush_offset d)) d
           else w1)
        in if \<not> is_error ec then SSLSession_TrySend w2
           else snd (SSLSession_Disconnect True True (SSLSession_SendError K ec w2)))"

text \<open>
  \<^verbatim>\<open>Send(buffer, size)\<close>: the pointer is \<open>None\<close> when it is null, and otherwise the bytes
  it points to, of which the first \<open>sz\<close> (the argument \<^verbatim>\<open>size\<close>) are read.
\<close>

definition SSLSession_Send ::
  "bool \<Rightarrow> byte list option \<Rightarrow> size_t \<Rightarrow> ssl_world \<Rightarrow> size_t \<times> ssl_world" where
  "SSLSession_Send on_serializer buffer sz w =
     (case buffer of
        None \<Rightarrow> (0, w)
      | Some bytes \<Rightarrow>
          if sz = 0 then (0, w)
          else if \<not> ssl_handshaked w then (0, w)
          else
            let w1 = w\<lparr>ssl_send_buffer_main := ssl_send_buffer_main w @ take (unat sz) bytes\<rparr>;
                result = vsize (ssl_send_buffer_main w1)
            in (result, if on_serializer then SSLSession_TrySend w1 else ssl_post send_handler w1))"

definition SSLSession_handshake_handler :: "platform \<Rightarrow> error_code \<Rightarrow> ssl_world \<Rightarrow> ssl_world" where
  "SSLSession_handshake_handler K ec w =
     (if ssl_handshaked w then w
      else if \<not> is_error ec then
        SSLSession_TryReceive (ssl_call onEmpty (ssl_call onHandshaked (w\<lparr>ssl_handshaked := True\<rparr>)))
      else snd (SSLSession_Disconnect True True (SSLSession_SendError K ec w)))"

definition SSLSession_Connect ::
  "(sock_op \<Rightarrow> bool) \<Rightarrow> ssl_world \<Rightarrow> (exception \<times> ssl_world) + ssl_world" where
  "SSLSession_Connect fails w =
     (if ssl_connected w \<or> ssl_handshaked w then Inr w
      else if server_option_no_delay w \<and> fails op_set_no_delay
      then Inl (system_error op_set_no_delay, w)
      else
        let w1 = (if server_option_no_delay w then ssl_emit (Socket op_set_no_delay) w else w);
            w2 = w1\<lparr>ssl_bytes_sent := 0, ssl_bytes_received := 0\<rparr>;
            w3 = w2\<lparr>ssl_connected := True\<rparr>;
            w4 = ssl_call onConnected w3
        in Inr (ssl_async async_handshake w4))"

section \<open>The UDP client (udp\_client.cpp)\<close>

record udp_client =
  udp_id :: nat
  service_IsMultithread :: bool
  udp_endpoint :: endpoint
  udp_connected :: bool
  udp_datagrams_sent :: uint64_t
  udp_datagrams_received :: uint64_t
  udp_bytes_sent :: uint64_t
  udp_bytes_received :: uint64_t
  udp_reciving :: bool
  udp_recive_buffer :: "byte list"
  udp_recive_endpoint :: endpoint
  udp_option_reuse_address :: bool
  udp_option_reuse_port :: bool
  udp_option_multicast :: bool

record udp_world = udp_client +
  udp_trace :: "udp_client event list"
  udp_posted :: "(serializer \<times> task) list"

definition udp_serializer :: "udp_world \<Rightarrow> serializer" where
  "udp_serializer w = (if service_IsMultithread w then strand else io_service)"

definition udp_emit :: "udp_client event \<Rightarrow> udp_world \<Rightarrow> udp_world" where
  "udp_emit e w = w\<lparr>udp_trace := udp_trace w @ [e]\<rparr>"

definition udp_call :: "callback \<Rightarrow> udp_world \<Rightarrow> udp_world" where
  "udp_call cb w = udp_emit (Call cb (udp_client.truncate w)) w"

definition udp_async :: "async_io \<Rightarrow> udp_world \<Rightarrow> udp_world" where
  "udp_async io w = udp_emit (Async (udp_serializer w) io) w"

definition udp_post :: "task \<Rightarrow> udp_world \<Rightarrow> udp_world" where
  "udp_post t w = w\<lparr>udp_posted := udp_posted w @ [(udp_serializer w, t)]\<rparr>"

text \<open>
  The constructor taking an endpoint, with a service that is not null. The receive
  endpoint is default-constructed.
\<close>

definition UDPClient :: "size_t \<Rightarrow> nat \<Rightarrow> bool \<Rightarrow> endpoint \<Rightarrow> udp_world" where
  "UDPClient CHUNK uuid multithread ep =
     \<lparr>udp_id = uuid,
      service_IsMultithread = multithread,
      udp_endpoint = ep,
      udp_connected = False,
      udp_datagrams_sent = 0,
      udp_datagrams_received = 0,
      udp_bytes_sent = 0,
      udp_bytes_received = 0,
      udp_reciving = False,
      udp_recive_buffer = replicate (unat (CHUNK + 1)) 0,
      udp_recive_endpoint = ([], 0),
      udp_option_reuse_address = False,
      udp_option_reuse_port = False,
      udp_option_multicast = False,
      udp_trace = [],
      udp_posted = []\<rparr>"

definition UDPClient_SendError :: "platform \<Rightarrow> error_code \<Rightarrow> udp_world \<Rightarrow> udp_world" where
  "UDPClient_SendError K ec w =
     (if ec = connection_aborted K \<or> ec = connection_refused K \<or> ec = connection_reset K
         \<or> ec = eof K \<or> ec = operation_aborted K
      then w
      else udp_call (onError (ec_value ec) (category_name K (ec_category ec)) (message K ec)) w)"

definition UDPClient_TryReceive :: "udp_world \<Rightarrow> udp_world" where
  "UDPClient_TryReceive w =
     (if udp_reciving w then w
      else if \<not> udp_connected w then w
      else udp_async (async_receive_from (length (udp_recive_buffer w))) (w\<lparr>udp_reciving := True\<rparr>))"

text \<open>
  A socket call that may throw: the exception leaves the handler with the state as it
  is, otherwise the call is logged and the handler goes on.
\<close>

definition udp_socket ::
  "(sock_op \<Rightarrow> bool) \<Rightarrow> sock_op \<Rightarrow> udp_world
     \<Rightarrow> (udp_world \<Rightarrow> (exception \<times> udp_world) + udp_world)
     \<Rightarrow> (exception \<times> udp_world) + udp_world" where
  "udp_socket fails op w continue =
     (if fails op then Inl (system_error op, w) else continue (udp_emit (Socket op) w))"

text \<open>
  The lambda posted by \<^verbatim>\<open>Connect\<close>. \<open>posix\<close> is the preprocessor condition around the
  \<^verbatim>\<open>SO_REUSEPORT\<close> block.
\<close>

definition UDPClient_connect_handler ::
  "bool \<Rightarrow> (sock_op \<Rightarrow> bool) \<Rightarrow> udp_world \<Rightarrow> (exception \<times> udp_world) + udp_world" where
  "UDPClient_connect_handler posix fails w =
     (if udp_connected w then Inr w
      else
        udp_socket fails op_open w (\<lambda>w1.
        (if udp_option_reuse_address w1
         then udp_socket fails op_set_reuse_address w1 else (\<lambda>continue. continue w1)) (\<lambda>w2.
        (if posix \<and> udp_option_reuse_port w2
         then udp_socket fails op_set_reuse_port w2 else (\<lambda>continue. continue w2)) (\<lambda>w3.
        udp_socket fails (if udp_option_multicast w3 then op_bind_endpoint else op_bind_any) w3
        (\<lambda>w4.
          let w5 = w4\<lparr>udp_datagrams_sent := 0, udp_datagrams_received := 0,
                       udp_bytes_sent := 0, udp_bytes_received := 0\<rparr>;
              w6 = w5\<lparr>udp_connected := True\<rparr>;
              w7 = udp_call onConnected w6
          in Inr (UDPClient_TryReceive w7))))))"

definition UDPClient_Connect :: "udp_world \<Rightarrow> bool \<times> udp_world" where
  "UDPClient_Connect w =
     (if udp_connected w then (False, w) else (True, udp_post connect_handler w))"

definition UDPClient_disconnect_handler :: "udp_world \<Rightarrow> udp_world" where
  "UDPClient_disconnect_handler w =
     (if \<not> udp_connected w then w
      else
        let w1 = udp_emit (Socket op_close) w;
            w2 = w1\<lparr>udp_connected := False\<rparr>
        in udp_call onDisconnected w2)"

definition UDPClient_Disconnect :: "bool \<Rightarrow> bool \<Rightarrow> udp_world \<Rightarrow> bool \<times> udp_world" where
  "UDPClient_Disconnect on_serializer dispatch w =
     (if \<not> udp_connected w then (False, w)
      else if dispatch \<and> on_serializer then (True, UDPClient_disconnect_handler w)
      else (True, udp_post disconnect_handler w))"

text \<open>
  \<^verbatim>\<open>Send(endpoint, buffer, size)\<close>. The outcome of the synchronous \<^verbatim>\<open>send_to\<close>, the
  number of bytes sent and the error code, comes from the environment.
\<close>

definition UDPClient_Send_to ::
  "platform \<Rightarrow> bool \<Rightarrow> size_t \<times> error_code \<Rightarrow> endpoint \<Rightarrow> byte list option \<Rightarrow> size_t
     \<Rightarrow> udp_world \<Rightarrow> bool \<times> udp_world" where
  "UDPClient_Send_to K on_serializer send_to_result ep buffer sz w =
     (case buffer of
        None \<Rightarrow> (False, w)
      | Some bytes \<Rightarrow>
          if sz = 0 then (False, w)
          else if \<not> udp_connected w then (False, w)
          else
            let sent = fst send_to_result;
                ec = snd send_to_result;
                w1 = udp_emit (SendTo ep (take (unat sz) bytes)) w;
                w2 = (if sent > 0 then
                        let a = w1\<lparr>udp_datagrams_sent := udp_datagrams_sent w1 + 1\<rparr>;
                            b = a\<lparr>udp_bytes_sent := udp_bytes_sent a + sent\<rparr>
                        in udp_call (onSentTo ep sent) b
                      else w1)
            in if is_error ec
               then (False, snd (UDPClient_Disconnect on_serializer True (UDPClient_SendError K ec w2)))
               else (True, w2))"

definition UDPClient_Send ::
  "platform \<Rightarrow> bool \<Rightarrow> size_t \<times> error_code \<Rightarrow> byte list option \<Rightarrow> size_t
     \<Rightarrow> udp_world \<Rightarrow> bool \<times> udp_world" where
  "UDPClient_Send K on_serializer send_to_result buffer sz w =
     UDPClient_Send_to K on_serializer send_to_result (udp_endpoint w) buffer sz w"

definition UDPClient_async_receive_handler ::
  "platform \<Rightarrow> error_code \<Rightarrow> size_t \<Rightarrow> udp_world \<Rightarrow> udp_world" where
  "UDPClient_async_receive_handler K ec sz w =
     (let w1 = w\<lparr>udp_reciving := False\<rparr> in
      if \<not> udp_connected w1 then w1
      else
        let w2 =
          (if sz > 0 then
             let a = w1\<lparr>udp_datagrams_received := udp_datagrams_received w1 + 1\<rparr>;
                 b = a\<lparr>udp_bytes_received := udp_bytes_received a + sz\<rparr>;
                 c = (if vsize (udp_recive_buffer b) = sz
                      then b\<lparr>udp_recive_buffer :=
                               vector_resize (unat (2 * sz)) (udp_recive_buffer b)\<rparr>
                      else b)
             in udp_call (onReceivedFrom (udp_recive_endpoint c)
                            (take (unat sz) (udp_recive_buffer c))) c
           else w1)
        in if \<not> is_error ec then UDPClient_TryReceive w2
           else snd (UDPClient_Disconnect True True (UDPClient_SendError K ec w2)))"

text \<open>
  The serializer running the next posted handler. An exception of the handler stays
  with the serializer's thread; the state is as the handler left it.
\<close>

definition udp_run_next :: "bool \<Rightarrow> (sock_op \<Rightarrow> bool) \<Rightarrow> udp_world \<Rightarrow> udp_world" where
  "udp_run_next posix fails w =
     (case udp_posted w of
        [] \<Rightarrow> w
      | (s, t) # rest \<Rightarrow>
          let w1 = w\<lparr>udp_posted := rest\<rparr> in
          (case t of
             connect_handler \<Rightarrow>
               (case UDPClient_connect_handler posix fails w1 of
                  Inl (e, w2) \<Rightarrow> w2 | Inr w2 \<Rightarrow> w2)
           | disconnect_handler \<Rightarrow> UDPClient_disconnect_handler w1
           | send_handler \<Rightarrow> w1))"

section \<open>Runs of a session\<close>

text \<open>
  What can happen to a TLS session: a call of a member function, the serializer running
  the next posted handler, or the completion of an asynchronous operation. A run applies
  a list of these, one after the other.
\<close>

datatype ssl_op =
  ssl_Connect_call
  | ssl_Disconnect_call bool bool
  | ssl_Send_call bool "byte list option" size_t
  | ssl_run_posted
  | ssl_handshake_completion error_code
  | ssl_shutdown_completion error_code
  | ssl_receive_completion error_code size_t
  | ssl_write_completion error_code size_t

definition ssl_run_next :: "ssl_world \<Rightarrow> ssl_world" where
  "ssl_run_next w =
     (case ssl_posted w of
        [] \<Rightarrow> w
      | (s, t) # rest \<Rightarrow>
          let w1 = w\<lparr>ssl_posted := rest\<rparr> in
          (case t of
             send_handler \<Rightarrow> SSLSession_TrySend w1
           | disconnect_handler \<Rightarrow> SSLSession_disconnect_handler w1
           | connect_handler \<Rightarrow> w1))"

fun ssl_step :: "platform \<Rightarrow> (sock_op \<Rightarrow> bool) \<Rightarrow> ssl_op \<Rightarrow> ssl_world \<Rightarrow> ssl_world" where
  "ssl_step K fails ssl_Connect_call w =
     (case SSLSession_Connect fails w of Inl (e, w1) \<Rightarrow> w1 | Inr w1 \<Rightarrow> w1)"
| "ssl_step K fails (ssl_Disconnect_call on_serializer dispatch) w =
     snd (SSLSession_Disconnect on_serializer dispatch w)"
| "ssl_step K fails (ssl_Send_call on_serializer buffer sz) w =
     snd (SSLSession_Send on_serializer buffer sz w)"
| "ssl_step K fails ssl_run_posted w = ssl_run_next w"
| "ssl_step K fails (ssl_handshake_completion ec) w = SSLSession_handshake_handler K ec w"
| "ssl_step K fails (ssl_shutdown_completion ec) w = SSLSession_shutdown_handler ec w"
| "ssl_step K fails (ssl_receive_completion ec sz) w = SSLSession_async_receive_handler K ec sz w"
| "ssl_step K fails (ssl_write_completion ec sz) w = SSLSession_async_write_handler K ec sz w"

text \<open>The states a run goes through, the first one included.\<close>

fun ssl_states :: "platform \<Rightarrow> (sock_op \<Rightarrow> bool) \<Rightarrow> ssl_op list \<Rightarrow> ssl_world \<Rightarrow> ssl_world list" where
  "ssl_states K fails [] w = [w]"
| "ssl_states K fails (op # ops) w = w # ssl_states K fails ops (ssl_step K fails op w)"

fun is_handshake_completion :: "ssl_op \<Rightarrow> bool" where
  "is_handshake_completion (ssl_handshake_completion ec) = True"
| "is_handshake_completion op = False"

text \<open>
  The same for the UDP client. Its two multicast functions, which do no more than set a
  socket option and call a notification, are left out.
\<close>

datatype udp_op =
  udp_Connect_call
  | udp_Disconnect_call bool bool
  | udp_Send_call bool "size_t \<times> error_code" endpoint "byte list option" size_t
  | udp_run_posted
  | udp_receive_completion error_code size_t

fun udp_step :: "platform \<Rightarrow> bool \<Rightarrow> (sock_op \<Rightarrow> bool) \<Rightarrow> udp_op \<Rightarrow> udp_world \<Rightarrow> udp_world" where
  "udp_step K posix fails udp_Connect_call w = snd (UDPClient_Connect w)"
| "udp_step K posix fails (udp_Disconnect_call on_serializer dispatch) w =
     snd (UDPClient_Disconnect on_serializer dispatch w)"
| "udp_step K posix fails (udp_Send_call on_serializer send_to_result ep buffer sz) w =
     snd (UDPClient_Send_to K on_serializer send_to_result ep buffer sz w)"
| "udp_step K posix fails udp_run_posted w = udp_run_next posix fails w"
| "udp_step K posix fails (udp_receive_completion ec sz) w =
     UDPClient_async_receive_handler K ec sz w"


section \<open>Reconnecting the UDP client\<close>






section \<open>Observations\<close>

text \<open>The data callbacks of a trace, and the statistics counters a session updates.\<close>

definition data_callbacks :: "'s event list \<Rightarrow> callback list" where
  "data_callbacks tr = filter data_callback (callbacks tr)"

definition ssl_statistics :: "ssl_world \<Rightarrow> uint64_t \<times> uint64_t \<times> uint64_t \<times> uint64_t" where
  "ssl_statistics w =
     (ssl_bytes_sent w, ssl_bytes_received w, server_bytes_sent w, server_bytes_received w)"

definition udp_statistics :: "udp_world \<Rightarrow> uint64_t \<times> uint64_t \<times> uint64_t \<times> uint64_t" where
  "udp_statistics w =
     (udp_datagrams_sent w, udp_datagrams_received w, udp_bytes_sent w, udp_bytes_received w)"

section \<open>A platform to evaluate examples on\<close>

text \<open>
  The constants as a Linux build against OpenSSL 1.1 has them. The theorems hold for any
  platform; this one serves to run the functions on concrete inputs.
\<close>

definition linux_openssl :: platform where
  "linux_openssl =
     \<lparr>connection_aborted = make_error_code 103 system_category,
      connection_refused = make_error_code 111 system_category,
      connection_reset = make_error_code 104 system_category,
      eof = make_error_code 2 misc_category,
      operation_aborted = make_error_code 125 system_category,
      stream_truncated = make_error_code 1 stream_category,
      ERR_GET_REASON = (\<lambda>l. l mod 4096),
      SSL_R_DECRYPTION_FAILED_OR_BAD_RECORD_MAC = 281,
      SSL_R_PROTOCOL_IS_SHUTDOWN = 207,
      SSL_R_WRONG_VERSION_NUMBER = 267,
      category_name =
        (\<lambda>c. case c of
               system_category \<Rightarrow> ''system''
             | misc_category \<Rightarrow> ''asio.misc''
             | ssl_category \<Rightarrow> ''asio.ssl''
             | stream_category \<Rightarrow> ''asio.ssl.stream''
             | user_category name \<Rightarrow> name),
      message = (\<lambda>ec. ''error'')\<rparr>"

text \<open>
  An environment in which no socket call fails, and the state a handler leaves behind
  whether it threw or not.
\<close>

definition no_failure :: "sock_op \<Rightarrow> bool" where
  "no_failure op = False"

definition state_after :: "(exception \<times> 'w) + 'w \<Rightarrow> 'w" where
  "state_after r = (case r of Inl (e, w) \<Rightarrow> w | Inr w \<Rightarrow> w)"

section \<open>Basic facts\<close>

lemmas ssl_defs =
  SSLSession_TryReceive_def SSLSession_TrySend_def SSLSession_Disconnect_def
  SSLSession_disconnect_handler_def SSLSession_SendError_def SSLSession_ClearBuffers_def
  ssl_call_def ssl_async_def ssl_emit_def ssl_post_def

lemmas udp_defs =
  UDPClient_TryReceive_def UDPClient_Disconnect_def UDPClient_disconnect_handler_def
  UDPClient_SendError_def udp_call_def udp_async_def udp_emit_def udp_post_def

lemma callbacks_append [simp]: "callbacks (xs @ ys) = callbacks xs @ callbacks ys"
  by (induction xs rule: callbacks.induct) simp_all

lemma issued_append [simp]: "issued (xs @ ys) = issued xs @ issued ys"
  by (induction xs rule: issued.induct) simp_all

lemma SSLSession_SendError_eq:
  "SSLSession_SendError K ec w =
     (if ec \<in> {connection_aborted K, connection_refused K, connection_reset K, eof K,
                operation_aborted K, stream_truncated K}
         \<or> (ec_category ec = ssl_category \<and>
             ERR_GET_REASON K (ec_value ec) \<in>
               {SSL_R_DECRYPTION_FAILED_OR_BAD_RECORD_MAC K, SSL_R_PROTOCOL_IS_SHUTDOWN K,
                SSL_R_WRONG_VERSION_NUMBER K})
      then w
      else w\<lparr>ssl_trace := ssl_trace w @
                [Call (onError (ec_value ec) (category_name K (ec_category ec)) (message K ec))
                      (ssl_session.truncate w)]\<rparr>)"
  by (auto simp: SSLSession_SendError_def ssl_call_def ssl_emit_def)

lemma UDPClient_SendError_eq:
  "UDPClient_SendError K ec u =
     (if ec \<in> {connection_aborted K, connection_refused K, connection_reset K, eof K,
                operation_aborted K}
      then u
      else u\<lparr>udp_trace := udp_trace u @
                [Call (onError (ec_value ec) (category_name K (ec_category ec)) (message K ec))
                      (udp_client.truncate u)]\<rparr>)"
  by (auto simp: UDPClient_SendError_def udp_call_def udp_emit_def)

lemma SSLSession_SendError_connected:
  "ssl_connected (SSLSession_SendError K ec w) = ssl_connected w"
  by (simp add: SSLSession_SendError_def ssl_call_def ssl_emit_def)

lemma SSLSession_SendError_multithread:
  "server_IsMultithread (SSLSession_SendError K ec w) = server_IsMultithread w"
  by (simp add: SSLSession_SendError_def ssl_call_def ssl_emit_def)

section \<open>Rejected arguments\<close>

text \<open>
  C9. A \<^verbatim>\<open>Send\<close> with a null buffer or a size of zero is rejected on the spot: the TLS
  session returns 0, the UDP client returns false (both overloads), and the state after
  the call is the state before it. The state holds the buffers, the statistics, the trace
  of callbacks and I/O, and the queue of posted handlers, so none of them changes.
\<close>

theorem Send_rejects_null_or_empty:
  "buffer = None \<or> sz = 0 \<Longrightarrow>
     SSLSession_Send on_serializer buffer sz w = (0, w)
     \<and> UDPClient_Send_to K on_serializer send_to_result ep buffer sz u = (False, u)
     \<and> UDPClient_Send K on_serializer send_to_result buffer sz u = (False, u)"
  by (auto simp: SSLSession_Send_def UDPClient_Send_to_def UDPClient_Send_def
           split: option.splits)

theorem Send_rejects_null_or_empty_witness:
  "SSLSession_Send True (Some [1, 2]) 0 (SSLSession 3 7 False True 0 0)
     = (0, SSLSession 3 7 False True 0 0)
   \<and> UDPClient_Send_to linux_openssl True (2, make_error_code 0 system_category)
        (''127.0.0.1'', 3333) (Some [1, 2]) 0 (UDPClient 3 7 False (''127.0.0.1'', 3333))
     = (False, UDPClient 3 7 False (''127.0.0.1'', 3333))
   \<and> UDPClient_Send linux_openssl True (2, make_error_code 0 system_category)
        (Some [1, 2]) 0 (UDPClient 3 7 False (''127.0.0.1'', 3333))
     = (False, UDPClient 3 7 False (''127.0.0.1'', 3333))"
  using Send_rejects_null_or_empty [of "Some [1, 2]" 0 True "SSLSession 3 7 False True 0 0"
      linux_openssl "(2, make_error_code 0 system_category)" "(''127.0.0.1'', 3333)"
      "UDPClient 3 7 False (''127.0.0.1'', 3333)"]
  by simp

section \<open>The TLS send path\<close>



section \<open>Error reporting\<close>

text \<open>
  C4. An error code classified at a completion site is not reported through \<^verbatim>\<open>onError\<close>
  if and only if it is connection-aborted, connection-refused, connection-reset,
  end-of-stream, operation-aborted or TLS stream-truncated, or is of the TLS category
  with reason "decryption failed or bad record MAC", "protocol is shutdown" or "wrong
  version number"; \<^verbatim>\<open>SendError\<close> then changes nothing. Every other code is reported by
  one call of \<^verbatim>\<open>onError\<close> with the value, the category name and the message, and
  nothing else is done. This holds for every code in the TLS session. In the UDP client
  \<^verbatim>\<open>SendError\<close> is called with the codes of a UDP socket, which are neither the TLS
  stream-truncated code nor of the TLS category, and for these it holds as well.
\<close>

theorem SendError_suppression:
  "SSLSession_SendError K ec w =
     (if ec \<in> {connection_aborted K, connection_refused K, connection_reset K, eof K,
                operation_aborted K, stream_truncated K}
         \<or> (ec_category ec = ssl_category \<and>
             ERR_GET_REASON K (ec_value ec) \<in>
               {SSL_R_DECRYPTION_FAILED_OR_BAD_RECORD_MAC K, SSL_R_PROTOCOL_IS_SHUTDOWN K,
                SSL_R_WRONG_VERSION_NUMBER K})
      then w
      else w\<lparr>ssl_trace := ssl_trace w @
                [Call (onError (ec_value ec) (category_name K (ec_category ec)) (message K ec))
                      (ssl_session.truncate w)]\<rparr>)
   \<and> ((callbacks (ssl_trace (SSLSession_SendError K ec w)) = callbacks (ssl_trace w)) =
        (ec \<in> {connection_aborted K, connection_refused K, connection_reset K, eof K,
                operation_aborted K, stream_truncated K}
         \<or> (ec_category ec = ssl_category \<and>
             ERR_GET_REASON K (ec_value ec) \<in>
               {SSL_R_DECRYPTION_FAILED_OR_BAD_RECORD_MAC K, SSL_R_PROTOCOL_IS_SHUTDOWN K,
                SSL_R_WRONG_VERSION_NUMBER K})))
   \<and> (ec \<noteq> stream_truncated K \<and> ec_category ec \<noteq> ssl_category \<longrightarrow>
        UDPClient_SendError K ec u =
          (if ec \<in> {connection_aborted K, connection_refused K, connection_reset K, eof K,
                     operation_aborted K, stream_truncated K}
              \<or> (ec_category ec = ssl_category \<and>
                  ERR_GET_REASON K (ec_value ec) \<in>
                    {SSL_R_DECRYPTION_FAILED_OR_BAD_RECORD_MAC K, SSL_R_PROTOCOL_IS_SHUTDOWN K,
                     SSL_R_WRONG_VERSION_NUMBER K})
           then u
           else u\<lparr>udp_trace := udp_trace u @
                     [Call (onError (ec_value ec) (category_name K (ec_category ec)) (message K ec))
                           (udp_client.truncate u)]\<rparr>)
        \<and> ((callbacks (udp_trace (UDPClient_SendError K ec u)) = callbacks (udp_trace u)) =
             (ec \<in> {connection_aborted K, connection_refused K, connection_reset K, eof K,
                     operation_aborted K, stream_truncated K}
              \<or> (ec_category ec = ssl_category \<and>
                  ERR_GET_REASON K (ec_value ec) \<in>
                    {SSL_R_DECRYPTION_FAILED_OR_BAD_RECORD_MAC K, SSL_R_PROTOCOL_IS_SHUTDOWN K,
                     SSL_R_WRONG_VERSION_NUMBER K}))))"
proof -
  note s = SSLSession_SendError_eq [of K ec w]
  have si: "(callbacks (ssl_trace (SSLSession_SendError K ec w)) = callbacks (ssl_trace w)) =
        (ec \<in> {connection_aborted K, connection_refused K, connection_reset K, eof K,
                operation_aborted K, stream_truncated K}
         \<or> (ec_category ec = ssl_category \<and>
             ERR_GET_REASON K (ec_value ec) \<in>
               {SSL_R_DECRYPTION_FAILED_OR_BAD_RECORD_MAC K, SSL_R_PROTOCOL_IS_SHUTDOWN K,
                SSL_R_WRONG_VERSION_NUMBER K}))"
    unfolding s by simp
  note u = UDPClient_SendError_eq [of K ec u]
  have ui: "(callbacks (udp_trace (UDPClient_SendError K ec u)) = callbacks (udp_trace u)) =
        (ec \<in> {connection_aborted K, connection_refused K, connection_reset K, eof K,
                operation_aborted K})"
    unfolding u by simp
  show ?thesis
    unfolding u ui using s si by auto
qed

theorem SendError_suppression_witness:
  "callbacks (ssl_trace (SSLSession_SendError linux_openssl (make_error_code 167772427 ssl_category)
                 (SSLSession 3 7 False True 0 0))) = []
   \<and> callbacks (ssl_trace (SSLSession_SendError linux_openssl (make_error_code 167772353 ssl_category)
                 (SSLSession 3 7 False True 0 0))) = [onError 167772353 ''asio.ssl'' ''error'']
   \<and> callbacks (udp_trace (UDPClient_SendError linux_openssl (make_error_code 104 system_category)
                 (UDPClient 3 7 False (''127.0.0.1'', 3333)))) = []
   \<and> callbacks (udp_trace (UDPClient_SendError linux_openssl (make_error_code 13 system_category)
                 (UDPClient 3 7 False (''127.0.0.1'', 3333)))) = [onError 13 ''system'' ''error'']"
proof -
  let ?w = "SSLSession 3 7 False True 0 0"
  let ?u = "UDPClient 3 7 False (''127.0.0.1'', 3333)"
  have a: "make_error_code 104 system_category \<noteq> stream_truncated linux_openssl
           \<and> ec_category (make_error_code 104 system_category) \<noteq> ssl_category"
    and b: "make_error_code 13 system_category \<noteq> stream_truncated linux_openssl
           \<and> ec_category (make_error_code 13 system_category) \<noteq> ssl_category"
    by (simp_all add: linux_openssl_def)
  have 1: "callbacks (ssl_trace (SSLSession_SendError linux_openssl
             (make_error_code 167772427 ssl_category) ?w)) = []"
    using SendError_suppression [of linux_openssl "make_error_code 167772427 ssl_category" ?w ?u]
    by (simp add: linux_openssl_def SSLSession_def)
  have 2: "callbacks (ssl_trace (SSLSession_SendError linux_openssl
             (make_error_code 167772353 ssl_category) ?w)) = [onError 167772353 ''asio.ssl'' ''error'']"
    using SendError_suppression [of linux_openssl "make_error_code 167772353 ssl_category" ?w ?u]
    by (simp add: linux_openssl_def SSLSession_def)
  have 3: "callbacks (udp_trace (UDPClient_SendError linux_openssl
             (make_error_code 104 system_category) ?u)) = []"
    using SendError_suppression [of linux_openssl "make_error_code 104 system_category" ?w ?u] a
    by (simp add: linux_openssl_def UDPClient_def)
  have 4: "callbacks (udp_trace (UDPClient_SendError linux_openssl
             (make_error_code 13 system_category) ?u)) = [onError 13 ''system'' ''error'']"
    using SendError_suppression [of linux_openssl "make_error_code 13 system_category" ?w ?u] b
    by (simp add: linux_openssl_def UDPClient_def)
  from 1 2 3 4 show ?thesis by (intro conjI)
qed

section \<open>Completions without data\<close>

text \<open>
  C10. A read or write completion that delivers zero bytes emits no data callback
  (\<^verbatim>\<open>onReceived\<close>, \<^verbatim>\<open>onSent\<close>) and leaves every statistics counter as it was, in the TLS
  session (its own counters and the server's) and in the UDP client. Hence a completion
  after which the trace holds a new data callback delivered more than zero bytes.
\<close>

theorem zero_byte_completion_is_silent:
  "data_callbacks (ssl_trace (SSLSession_async_receive_handler K ec 0 w)) = data_callbacks (ssl_trace w)
   \<and> ssl_statistics (SSLSession_async_receive_handler K ec 0 w) = ssl_statistics w
   \<and> data_callbacks (ssl_trace (SSLSession_async_write_handler K ec 0 w)) = data_callbacks (ssl_trace w)
   \<and> ssl_statistics (SSLSession_async_write_handler K ec 0 w) = ssl_statistics w
   \<and> data_callbacks (udp_trace (UDPClient_async_receive_handler K ec 0 u)) = data_callbacks (udp_trace u)
   \<and> udp_statistics (UDPClient_async_receive_handler K ec 0 u) = udp_statistics u
   \<and> (data_callbacks (ssl_trace (SSLSession_async_receive_handler K ec k w))
        \<noteq> data_callbacks (ssl_trace w) \<longrightarrow> k > 0)
   \<and> (data_callbacks (ssl_trace (SSLSession_async_write_handler K ec k w))
        \<noteq> data_callbacks (ssl_trace w) \<longrightarrow> k > 0)
   \<and> (data_callbacks (udp_trace (UDPClient_async_receive_handler K ec k u))
        \<noteq> data_callbacks (udp_trace u) \<longrightarrow> k > 0)"
proof -
  have r: "data_callbacks (ssl_trace (SSLSession_async_receive_handler K ec 0 w))
             = data_callbacks (ssl_trace w)"
    by (simp add: SSLSession_async_receive_handler_def ssl_defs Let_def data_callbacks_def)
  have s: "data_callbacks (ssl_trace (SSLSession_async_write_handler K ec 0 w))
             = data_callbacks (ssl_trace w)"
    by (simp add: SSLSession_async_write_handler_def ssl_defs Let_def data_callbacks_def)
  have u: "data_callbacks (udp_trace (UDPClient_async_receive_handler K ec 0 u))
             = data_callbacks (udp_trace u)"
    by (simp add: UDPClient_async_receive_handler_def udp_defs Let_def data_callbacks_def)
  have rc: "ssl_statistics (SSLSession_async_receive_handler K ec 0 w) = ssl_statistics w"
    by (simp add: SSLSession_async_receive_handler_def ssl_defs Let_def ssl_statistics_def)
  have sc: "ssl_statistics (SSLSession_async_write_handler K ec 0 w) = ssl_statistics w"
    by (simp add: SSLSession_async_write_handler_def ssl_defs Let_def ssl_statistics_def)
  have uc: "udp_statistics (UDPClient_async_receive_handler K ec 0 u) = udp_statistics u"
    by (simp add: UDPClient_async_receive_handler_def udp_defs Let_def udp_statistics_def)
  have pos: "k \<noteq> 0 \<Longrightarrow> k > 0"
    by (simp add: word_neq_0_conv)
  show ?thesis
    using r s u rc sc uc pos by metis
qed

theorem zero_byte_completion_is_silent_witness:
  "data_callbacks (ssl_trace (SSLSession_async_receive_handler linux_openssl
       (make_error_code 0 system_category) 2
       ((SSLSession 3 7 False True 0 0)
          \<lparr>ssl_connected := True, ssl_handshaked := True, ssl_recive_buffer := [5, 6, 7, 8]\<rparr>)))
     = [onReceived [5, 6]]
   \<and> (2 :: size_t) > 0"
proof -
  let ?w = "(SSLSession 3 7 False True 0 0)
              \<lparr>ssl_connected := True, ssl_handshaked := True, ssl_recive_buffer := [5, 6, 7, 8]\<rparr>"
  let ?ok = "make_error_code 0 system_category"
  have fired: "data_callbacks (ssl_trace (SSLSession_async_receive_handler linux_openssl ?ok 2 ?w))
                 = [onReceived [5, 6]]"
    by (simp add: SSLSession_async_receive_handler_def ssl_defs Let_def SSLSession_def vsize_def
          is_error_def data_callbacks_def)
  have before: "data_callbacks (ssl_trace ?w) = []"
    by (simp add: SSLSession_def data_callbacks_def)
  have "(2 :: size_t) > 0"
    using zero_byte_completion_is_silent [of linux_openssl ?ok ?w
        "UDPClient 3 7 False (''127.0.0.1'', 3333)" 2] fired before
    by simp
  with fired show ?thesis by simp
qed

section \<open>What each function adds to the trace\<close>

lemma ssl_trace_emit: "ssl_trace (ssl_emit e w) = ssl_trace w @ [e]"
  by (simp add: ssl_emit_def)

lemma ssl_trace_call: "ssl_trace (ssl_call cb w) = ssl_trace w @ [Call cb (ssl_session.truncate w)]"
  by (simp add: ssl_call_def ssl_emit_def)

lemma ssl_trace_async: "ssl_trace (ssl_async io w) = ssl_trace w @ [Async (ssl_serializer w) io]"
  by (simp add: ssl_async_def ssl_emit_def)

lemma ssl_trace_post: "ssl_trace (ssl_post t w) = ssl_trace w"
  by (simp add: ssl_post_def)

lemma SendError_callbacks:
  "callbacks (ssl_trace (SSLSession_SendError K ec w)) = callbacks (ssl_trace w)
   \<or> callbacks (ssl_trace (SSLSession_SendError K ec w))
       = callbacks (ssl_trace w)
         @ [onError (ec_value ec) (category_name K (ec_category ec)) (message K ec)]"
  by (simp add: SSLSession_SendError_def ssl_trace_call)

lemma SendError_onHandshaked:
  "count_list (callbacks (ssl_trace (SSLSession_SendError K ec w))) onHandshaked
     = count_list (callbacks (ssl_trace w)) onHandshaked"
  using SendError_callbacks [of K ec w] by auto

lemma disconnect_handler_callbacks:
  "callbacks (ssl_trace (SSLSession_disconnect_handler w)) = callbacks (ssl_trace w)"
  by (simp add: SSLSession_disconnect_handler_def ssl_trace_async)

lemma Disconnect_callbacks:
  "callbacks (ssl_trace (snd (SSLSession_Disconnect a b w))) = callbacks (ssl_trace w)"
  by (simp add: SSLSession_Disconnect_def disconnect_handler_callbacks ssl_trace_post)

lemma TryReceive_callbacks:
  "callbacks (ssl_trace (SSLSession_TryReceive w)) = callbacks (ssl_trace w)"
  by (simp add: SSLSession_TryReceive_def ssl_trace_async)

lemma TrySend_onHandshaked:
  "count_list (callbacks (ssl_trace (SSLSession_TrySend w))) onHandshaked
     = count_list (callbacks (ssl_trace w)) onHandshaked"
  by (simp add: SSLSession_TrySend_def ssl_trace_async ssl_trace_call Let_def)

lemma async_receive_handler_onHandshaked:
  "count_list (callbacks (ssl_trace (SSLSession_async_receive_handler K ec k w))) onHandshaked
     = count_list (callbacks (ssl_trace w)) onHandshaked"
  by (simp add: SSLSession_async_receive_handler_def Let_def TryReceive_callbacks
        Disconnect_callbacks SendError_onHandshaked ssl_trace_call)

lemma async_write_handler_onHandshaked:
  "count_list (callbacks (ssl_trace (SSLSession_async_write_handler K ec k w))) onHandshaked
     = count_list (callbacks (ssl_trace w)) onHandshaked"
  by (simp add: SSLSession_async_write_handler_def Let_def TrySend_onHandshaked
        Disconnect_callbacks SendError_onHandshaked ssl_trace_call)

lemma shutdown_handler_onHandshaked:
  "count_list (callbacks (ssl_trace (SSLSession_shutdown_handler ec w))) onHandshaked
     = count_list (callbacks (ssl_trace w)) onHandshaked"
  by (simp add: SSLSession_shutdown_handler_def Let_def ssl_trace_call ssl_trace_emit
        SSLSession_ClearBuffers_def)

lemma Connect_onHandshaked:
  "count_list (callbacks (ssl_trace
       (case SSLSession_Connect fails w of Inl (e, w1) \<Rightarrow> w1 | Inr w1 \<Rightarrow> w1))) onHandshaked
     = count_list (callbacks (ssl_trace w)) onHandshaked"
  by (simp add: SSLSession_Connect_def Let_def ssl_trace_call ssl_trace_emit ssl_trace_async)

lemma Send_onHandshaked:
  "count_list (callbacks (ssl_trace (snd (SSLSession_Send a buffer k w)))) onHandshaked
     = count_list (callbacks (ssl_trace w)) onHandshaked"
  by (simp add: SSLSession_Send_def Let_def TrySend_onHandshaked ssl_trace_post
           split: option.splits)

lemma run_next_onHandshaked:
  "count_list (callbacks (ssl_trace (ssl_run_next w))) onHandshaked
     = count_list (callbacks (ssl_trace w)) onHandshaked"
  by (simp add: ssl_run_next_def Let_def TrySend_onHandshaked disconnect_handler_callbacks
           split: list.splits task.splits)

lemma ssl_step_onHandshaked:
  assumes other: "\<not> is_handshake_completion op"
  shows "count_list (callbacks (ssl_trace (ssl_step K fails op w))) onHandshaked
           = count_list (callbacks (ssl_trace w)) onHandshaked"
  using other
  by (cases op)
     (simp_all add: Connect_onHandshaked Disconnect_callbacks Send_onHandshaked
        run_next_onHandshaked shutdown_handler_onHandshaked async_receive_handler_onHandshaked
        async_write_handler_onHandshaked)

lemma ssl_states_onHandshaked:
  "\<forall>op \<in> set ops. \<not> is_handshake_completion op \<Longrightarrow>
     \<forall>s \<in> set (ssl_states K fails ops w).
       count_list (callbacks (ssl_trace s)) onHandshaked
         = count_list (callbacks (ssl_trace w)) onHandshaked"
proof (induction ops arbitrary: w)
  case Nil
  then show ?case by simp
next
  case (Cons op ops)
  have step: "count_list (callbacks (ssl_trace (ssl_step K fails op w))) onHandshaked
                = count_list (callbacks (ssl_trace w)) onHandshaked"
    using Cons.prems by (simp add: ssl_step_onHandshaked)
  have rest: "\<forall>s \<in> set (ssl_states K fails ops (ssl_step K fails op w)).
                count_list (callbacks (ssl_trace s)) onHandshaked
                  = count_list (callbacks (ssl_trace (ssl_step K fails op w))) onHandshaked"
    using Cons.IH Cons.prems by simp
  from step rest show ?case by simp
qed

section \<open>Disconnecting a TLS session\<close>



text \<open>
  C2 as stated does not hold: \<^verbatim>\<open>TrySend\<close> also returns when the session is not
  handshaked, without swapping the buffers, and a completion that wrote zero bytes
  emits no \<^verbatim>\<open>onSent\<close>. Here the session is not sending, its flush buffer is empty and
  its main buffer is not, and \<^verbatim>\<open>TrySend\<close> does nothing; and on a handshaked session a
  write that is aborted before a byte was written completes without any callback.
\<close>

theorem TrySend_skips_when_not_handshaked:
  "\<not> ssl_sending ((SSLSession 3 7 False True 0 0)\<lparr>ssl_send_buffer_main := [1]\<rparr>)
   \<and> ssl_send_buffer_flush ((SSLSession 3 7 False True 0 0)\<lparr>ssl_send_buffer_main := [1]\<rparr>) = []
   \<and> SSLSession_TrySend ((SSLSession 3 7 False True 0 0)\<lparr>ssl_send_buffer_main := [1]\<rparr>)
       = (SSLSession 3 7 False True 0 0)\<lparr>ssl_send_buffer_main := [1]\<rparr>
   \<and> callbacks (ssl_trace (SSLSession_async_write_handler linux_openssl
        (make_error_code 125 system_category) 0
        ((SSLSession 3 7 False True 0 0)
           \<lparr>ssl_connected := True, ssl_handshaked := True, ssl_sending := True,
             ssl_send_buffer_flush := [1, 2]\<rparr>)))
       = []"
  by (simp add: SSLSession_TrySend_def SSLSession_def SSLSession_async_write_handler_def
        is_error_def SSLSession_SendError_def SSLSession_Disconnect_def
        SSLSession_disconnect_handler_def linux_openssl_def ssl_async_def ssl_emit_def Let_def)

text \<open>
  C2, amended. \<^verbatim>\<open>TrySend\<close> returns at once when the session is sending or is not
  handshaked. Otherwise, if the flush buffer is empty it is swapped with the main buffer
  and the offset is reset to 0; if the flush buffer is then still empty \<^verbatim>\<open>onEmpty\<close> is
  called and nothing else happens; otherwise sending is set and an asynchronous write
  of the flush buffer from the offset on is issued.

  The write completion clears sending and returns if the session is not handshaked.
  Otherwise, when \<open>k > 0\<close> bytes were written, it adds \<open>k\<close> to the bytes-sent counters of
  the session and of the server and to the offset, clears the flush buffer and resets
  the offset when the offset has reached the size of the flush buffer, and calls
  \<^verbatim>\<open>onSent(k, remaining)\<close>; when \<open>k = 0\<close> it does none of this. Then, without an error
  it calls \<^verbatim>\<open>TrySend\<close>, and with an error it calls \<^verbatim>\<open>SendError\<close> and then
  \<^verbatim>\<open>Disconnect(true)\<close>.
\<close>

theorem TrySend_steps:
  "SSLSession_TrySend w =
     (if ssl_sending w \<or> \<not> ssl_handshaked w then w
      else if ssl_send_buffer_flush w = [] \<and> ssl_send_buffer_main w = []
      then w\<lparr>ssl_send_buffer_flush_offset := 0,
             ssl_trace := ssl_trace w @
               [Call onEmpty (ssl_session.truncate (w\<lparr>ssl_send_buffer_flush_offset := 0\<rparr>))]\<rparr>
      else if ssl_send_buffer_flush w = []
      then w\<lparr>ssl_send_buffer_flush := ssl_send_buffer_main w, ssl_send_buffer_main := [],
             ssl_send_buffer_flush_offset := 0, ssl_sending := True,
             ssl_trace := ssl_trace w @
               [Async (ssl_serializer w) (async_write (ssl_send_buffer_main w))]\<rparr>
      else w\<lparr>ssl_sending := True,
             ssl_trace := ssl_trace w @
               [Async (ssl_serializer w)
                  (async_write (drop (unat (ssl_send_buffer_flush_offset w))
                                     (ssl_send_buffer_flush w)))]\<rparr>)
   \<and> SSLSession_async_write_handler K ec k w =
     (if \<not> ssl_handshaked w then w\<lparr>ssl_sending := False\<rparr>
      else
        (if is_error ec
         then (\<lambda>w'. snd (SSLSession_Disconnect True True (SSLSession_SendError K ec w')))
         else SSLSession_TrySend)
        (if k = 0 then w\<lparr>ssl_sending := False\<rparr>
         else if ssl_send_buffer_flush_offset w + k = vsize (ssl_send_buffer_flush w)
         then w\<lparr>ssl_sending := False,
                ssl_bytes_sent := ssl_bytes_sent w + k,
                server_bytes_sent := server_bytes_sent w + k,
                ssl_send_buffer_flush := [],
                ssl_send_buffer_flush_offset := 0,
                ssl_trace := ssl_trace w @
                  [Call (onSent k 0)
                     (ssl_session.truncate
                        (w\<lparr>ssl_sending := False,
                           ssl_bytes_sent := ssl_bytes_sent w + k,
                           server_bytes_sent := server_bytes_sent w + k,
                           ssl_send_buffer_flush := [],
                           ssl_send_buffer_flush_offset := 0\<rparr>))]\<rparr>
         else w\<lparr>ssl_sending := False,
                ssl_bytes_sent := ssl_bytes_sent w + k,
                server_bytes_sent := server_bytes_sent w + k,
                ssl_send_buffer_flush_offset := ssl_send_buffer_flush_offset w + k,
                ssl_trace := ssl_trace w @
                  [Call (onSent k (vsize (ssl_send_buffer_flush w)
                                    - (ssl_send_buffer_flush_offset w + k)))
                     (ssl_session.truncate
                        (w\<lparr>ssl_sending := False,
                           ssl_bytes_sent := ssl_bytes_sent w + k,
                           server_bytes_sent := server_bytes_sent w + k,
                           ssl_send_buffer_flush_offset :=
                             ssl_send_buffer_flush_offset w + k\<rparr>))]\<rparr>))"
proof -
  have pos: "k \<noteq> 0 \<Longrightarrow> k > 0"
    by (simp add: word_neq_0_conv)
  have t: "SSLSession_TrySend w =
     (if ssl_sending w \<or> \<not> ssl_handshaked w then w
      else if ssl_send_buffer_flush w = [] \<and> ssl_send_buffer_main w = []
      then w\<lparr>ssl_send_buffer_flush_offset := 0,
             ssl_trace := ssl_trace w @
               [Call onEmpty (ssl_session.truncate (w\<lparr>ssl_send_buffer_flush_offset := 0\<rparr>))]\<rparr>
      else if ssl_send_buffer_flush w = []
      then w\<lparr>ssl_send_buffer_flush := ssl_send_buffer_main w, ssl_send_buffer_main := [],
             ssl_send_buffer_flush_offset := 0, ssl_sending := True,
             ssl_trace := ssl_trace w @
               [Async (ssl_serializer w) (async_write (ssl_send_buffer_main w))]\<rparr>
      else w\<lparr>ssl_sending := True,
             ssl_trace := ssl_trace w @
               [Async (ssl_serializer w)
                  (async_write (drop (unat (ssl_send_buffer_flush_offset w))
                                     (ssl_send_buffer_flush w)))]\<rparr>)"
    by (simp add: SSLSession_TrySend_def ssl_call_def ssl_async_def ssl_emit_def
          ssl_serializer_def Let_def ssl_session.truncate_def)
  have h: "SSLSession_async_write_handler K ec k w =
     (if \<not> ssl_handshaked w then w\<lparr>ssl_sending := False\<rparr>
      else
        (if is_error ec
         then (\<lambda>w'. snd (SSLSession_Disconnect True True (SSLSession_SendError K ec w')))
         else SSLSession_TrySend)
        (if k = 0 then w\<lparr>ssl_sending := False\<rparr>
         else if ssl_send_buffer_flush_offset w + k = vsize (ssl_send_buffer_flush w)
         then w\<lparr>ssl_sending := False,
                ssl_bytes_sent := ssl_bytes_sent w + k,
                server_bytes_sent := server_bytes_sent w + k,
                ssl_send_buffer_flush := [],
                ssl_send_buffer_flush_offset := 0,
                ssl_trace := ssl_trace w @
                  [Call (onSent k 0)
                     (ssl_session.truncate
                        (w\<lparr>ssl_sending := False,
                           ssl_bytes_sent := ssl_bytes_sent w + k,
                           server_bytes_sent := server_bytes_sent w + k,
                           ssl_send_buffer_flush := [],
                           ssl_send_buffer_flush_offset := 0\<rparr>))]\<rparr>
         else w\<lparr>ssl_sending := False,
                ssl_bytes_sent := ssl_bytes_sent w + k,
                server_bytes_sent := server_bytes_sent w + k,
                ssl_send_buffer_flush_offset := ssl_send_buffer_flush_offset w + k,
                ssl_trace := ssl_trace w @
                  [Call (onSent k (vsize (ssl_send_buffer_flush w)
                                    - (ssl_send_buffer_flush_offset w + k)))
                     (ssl_session.truncate
                        (w\<lparr>ssl_sending := False,
                           ssl_bytes_sent := ssl_bytes_sent w + k,
                           server_bytes_sent := server_bytes_sent w + k,
                           ssl_send_buffer_flush_offset :=
                             ssl_send_buffer_flush_offset w + k\<rparr>))]\<rparr>))"
    using pos
    by (simp add: SSLSession_async_write_handler_def ssl_call_def ssl_emit_def Let_def
          ssl_session.truncate_def vsize_def)
  from t h show ?thesis by (rule conjI)
qed

theorem TrySend_steps_witness:
  "SSLSession_TrySend
     ((SSLSession 3 7 False True 0 0)
        \<lparr>ssl_connected := True, ssl_handshaked := True, ssl_send_buffer_main := [1, 2]\<rparr>)
     = (SSLSession 3 7 False True 0 0)
        \<lparr>ssl_connected := True, ssl_handshaked := True, ssl_send_buffer_flush := [1, 2],
          ssl_sending := True, ssl_trace := [Async strand (async_write [1, 2])]\<rparr>
   \<and> callbacks (ssl_trace (SSLSession_async_write_handler linux_openssl
        (make_error_code 0 system_category) 1
        ((SSLSession 3 7 False True 0 0)
           \<lparr>ssl_connected := True, ssl_handshaked := True, ssl_send_buffer_flush := [1, 2],
             ssl_sending := True\<rparr>)))
     = [onSent 1 1]"
  using TrySend_steps [of "(SSLSession 3 7 False True 0 0)
        \<lparr>ssl_connected := True, ssl_handshaked := True, ssl_send_buffer_main := [1, 2]\<rparr>"
        linux_openssl "make_error_code 0 system_category" 0]
      TrySend_steps [of "(SSLSession 3 7 False True 0 0)
           \<lparr>ssl_connected := True, ssl_handshaked := True, ssl_send_buffer_flush := [1, 2],
             ssl_sending := True\<rparr>"
        linux_openssl "make_error_code 0 system_category" 1]
  by (simp add: SSLSession_def ssl_serializer_def vsize_def is_error_def ssl_defs)

section \<open>The TLS handshake\<close>

text \<open>
  C5 as stated does not hold: a handshake error is handed to \<^verbatim>\<open>SendError\<close>, which keeps
  the suppressed codes from the user. Here the peer resets the connection during the
  handshake: the session begins its shutdown and \<^verbatim>\<open>onError\<close> is not called.
\<close>

theorem handshake_error_is_not_always_reported:
  "is_error (make_error_code 104 system_category)
   \<and> connection_reset linux_openssl = make_error_code 104 system_category
   \<and> callbacks (ssl_trace (SSLSession_handshake_handler linux_openssl (make_error_code 104 system_category)
        (state_after (SSLSession_Connect no_failure (SSLSession 3 7 False True 0 0)))))
     = [onConnected]
   \<and> issued (ssl_trace (SSLSession_handshake_handler linux_openssl (make_error_code 104 system_category)
        (state_after (SSLSession_Connect no_failure (SSLSession 3 7 False True 0 0)))))
     = [async_handshake, async_shutdown]"
  by (simp add: is_error_def linux_openssl_def SSLSession_handshake_handler_def
        SSLSession_Connect_def SSLSession_def state_after_def no_failure_def
        SSLSession_SendError_def SSLSession_Disconnect_def SSLSession_disconnect_handler_def
        ssl_call_def ssl_async_def ssl_emit_def Let_def)

text \<open>
  C5, amended. The handshake completion of a TLS session does nothing when the session
  is already handshaked. Otherwise, without an error it sets handshaked, calls
  \<^verbatim>\<open>onHandshaked\<close>, then \<^verbatim>\<open>onEmpty\<close>, and then calls \<^verbatim>\<open>TryReceive\<close>, which issues the first
  read, into the whole receive buffer, unless a read is already outstanding. With an
  error it calls \<^verbatim>\<open>SendError\<close>, which reports the error through \<^verbatim>\<open>onError\<close> unless the
  code is one of the suppressed ones, and then \<^verbatim>\<open>Disconnect(true)\<close>, which begins the
  shutdown of a connected session by issuing the asynchronous TLS shutdown; nothing else
  changes, so the session is still not handshaked, and \<^verbatim>\<open>onHandshaked\<close> is called
  neither by this completion nor in any state of any run that follows without another
  handshake completion.
\<close>

theorem handshake_handler_outcomes:
  "SSLSession_handshake_handler K ec w =
     (if ssl_handshaked w then w
      else if \<not> is_error ec then
        w\<lparr>ssl_handshaked := True, ssl_reciving := True,
          ssl_trace := ssl_trace w
            @ [Call onHandshaked (ssl_session.truncate (w\<lparr>ssl_handshaked := True\<rparr>)),
               Call onEmpty (ssl_session.truncate (w\<lparr>ssl_handshaked := True\<rparr>))]
            @ (if ssl_reciving w then []
               else [Async (ssl_serializer w) (async_read_some (length (ssl_recive_buffer w)))])\<rparr>
      else
        w\<lparr>ssl_trace := ssl_trace w
            @ (if ec \<in> {connection_aborted K, connection_refused K, connection_reset K, eof K,
                         operation_aborted K, stream_truncated K}
                  \<or> (ec_category ec = ssl_category \<and>
                      ERR_GET_REASON K (ec_value ec) \<in>
                        {SSL_R_DECRYPTION_FAILED_OR_BAD_RECORD_MAC K, SSL_R_PROTOCOL_IS_SHUTDOWN K,
                         SSL_R_WRONG_VERSION_NUMBER K})
               then []
               else [Call (onError (ec_value ec) (category_name K (ec_category ec)) (message K ec))
                          (ssl_session.truncate w)])
            @ (if ssl_connected w then [Async (ssl_serializer w) async_shutdown] else [])\<rparr>)
   \<and> (is_error ec \<longrightarrow>
        ssl_handshaked (SSLSession_handshake_handler K ec w) = ssl_handshaked w
        \<and> ((\<forall>op \<in> set ops. \<not> is_handshake_completion op) \<longrightarrow>
             (\<forall>s \<in> set (ssl_states K' fails ops (SSLSession_handshake_handler K ec w)).
                count_list (callbacks (ssl_trace s)) onHandshaked
                  = count_list (callbacks (ssl_trace w)) onHandshaked)))"
proof -
  let ?suppressed = "ec \<in> {connection_aborted K, connection_refused K, connection_reset K, eof K,
                         operation_aborted K, stream_truncated K}
                  \<or> (ec_category ec = ssl_category \<and>
                      ERR_GET_REASON K (ec_value ec) \<in>
                        {SSL_R_DECRYPTION_FAILED_OR_BAD_RECORD_MAC K, SSL_R_PROTOCOL_IS_SHUTDOWN K,
                         SSL_R_WRONG_VERSION_NUMBER K})"
  have already: "ssl_handshaked w \<Longrightarrow> SSLSession_handshake_handler K ec w = w"
    by (simp add: SSLSession_handshake_handler_def)
  have ok: "\<not> ssl_handshaked w \<Longrightarrow> \<not> is_error ec \<Longrightarrow>
           SSLSession_handshake_handler K ec w =
             w\<lparr>ssl_handshaked := True, ssl_reciving := True,
               ssl_trace := ssl_trace w
                 @ [Call onHandshaked (ssl_session.truncate (w\<lparr>ssl_handshaked := True\<rparr>)),
                    Call onEmpty (ssl_session.truncate (w\<lparr>ssl_handshaked := True\<rparr>))]
                 @ (if ssl_reciving w then []
                    else [Async (ssl_serializer w) (async_read_some (length (ssl_recive_buffer w)))])\<rparr>"
    by (cases "ssl_reciving w")
       (simp_all add: SSLSession_handshake_handler_def ssl_defs ssl_serializer_def
          ssl_session.truncate_def)
  have err: "\<not> ssl_handshaked w \<Longrightarrow> is_error ec \<Longrightarrow>
           SSLSession_handshake_handler K ec w =
             (SSLSession_SendError K ec w)
               \<lparr>ssl_trace := ssl_trace (SSLSession_SendError K ec w)
                   @ (if ssl_connected w then [Async (ssl_serializer w) async_shutdown] else [])\<rparr>"
    by (simp add: SSLSession_handshake_handler_def SSLSession_Disconnect_def
          SSLSession_disconnect_handler_def ssl_async_def ssl_emit_def ssl_serializer_def
          SSLSession_SendError_connected SSLSession_SendError_multithread)
  have err1: "\<not> ssl_handshaked w \<Longrightarrow> is_error ec \<Longrightarrow> ?suppressed \<Longrightarrow>
           SSLSession_handshake_handler K ec w =
             w\<lparr>ssl_trace := ssl_trace w
                 @ (if ssl_connected w then [Async (ssl_serializer w) async_shutdown] else [])\<rparr>"
    using SSLSession_SendError_eq [of K ec w] by (simp add: err)
  have err2: "\<not> ssl_handshaked w \<Longrightarrow> is_error ec \<Longrightarrow> \<not> ?suppressed \<Longrightarrow>
           SSLSession_handshake_handler K ec w =
             w\<lparr>ssl_trace := ssl_trace w
                 @ [Call (onError (ec_value ec) (category_name K (ec_category ec)) (message K ec))
                          (ssl_session.truncate w)]
                 @ (if ssl_connected w then [Async (ssl_serializer w) async_shutdown] else [])\<rparr>"
    using SSLSession_SendError_eq [of K ec w] by (simp add: err)
  have eq: "SSLSession_handshake_handler K ec w =
     (if ssl_handshaked w then w
      else if \<not> is_error ec then
        w\<lparr>ssl_handshaked := True, ssl_reciving := True,
          ssl_trace := ssl_trace w
            @ [Call onHandshaked (ssl_session.truncate (w\<lparr>ssl_handshaked := True\<rparr>)),
               Call onEmpty (ssl_session.truncate (w\<lparr>ssl_handshaked := True\<rparr>))]
            @ (if ssl_reciving w then []
               else [Async (ssl_serializer w) (async_read_some (length (ssl_recive_buffer w)))])\<rparr>
      else
        w\<lparr>ssl_trace := ssl_trace w
            @ (if ?suppressed then []
               else [Call (onError (ec_value ec) (category_name K (ec_category ec)) (message K ec))
                          (ssl_session.truncate w)])
            @ (if ssl_connected w then [Async (ssl_serializer w) async_shutdown] else [])\<rparr>)"
  proof (cases "ssl_handshaked w")
    case True
    then show ?thesis using already by simp
  next
    case nh: False
    show ?thesis
    proof (cases "is_error ec")
      case False
      with nh ok show ?thesis by simp
    next
      case e: True
      show ?thesis
      proof (cases ?suppressed)
        case True
        with nh e err1 show ?thesis by simp
      next
        case False
        with nh e err2 show ?thesis by simp
      qed
    qed
  qed
  have still: "is_error ec \<Longrightarrow>
      ssl_handshaked (SSLSession_handshake_handler K ec w) = ssl_handshaked w"
    unfolding eq by simp
  have here: "is_error ec \<Longrightarrow>
      count_list (callbacks (ssl_trace (SSLSession_handshake_handler K ec w))) onHandshaked
        = count_list (callbacks (ssl_trace w)) onHandshaked"
    unfolding eq by simp
  have later: "is_error ec \<Longrightarrow> \<forall>op \<in> set ops. \<not> is_handshake_completion op \<Longrightarrow>
      \<forall>s \<in> set (ssl_states K' fails ops (SSLSession_handshake_handler K ec w)).
        count_list (callbacks (ssl_trace s)) onHandshaked
          = count_list (callbacks (ssl_trace w)) onHandshaked"
    using ssl_states_onHandshaked [of ops K' fails "SSLSession_handshake_handler K ec w"] here
    by simp
  from eq still later show ?thesis by blast
qed

theorem handshake_handler_outcomes_witness:
  "callbacks (ssl_trace (SSLSession_handshake_handler linux_openssl (make_error_code 0 system_category)
      (state_after (SSLSession_Connect no_failure (SSLSession 3 7 False True 0 0)))))
     = [onConnected, onHandshaked, onEmpty]
   \<and> issued (ssl_trace (SSLSession_handshake_handler linux_openssl (make_error_code 0 system_category)
      (state_after (SSLSession_Connect no_failure (SSLSession 3 7 False True 0 0)))))
     = [async_handshake, async_read_some 4]
   \<and> callbacks (ssl_trace (SSLSession_handshake_handler linux_openssl (make_error_code 13 system_category)
      (state_after (SSLSession_Connect no_failure (SSLSession 3 7 False True 0 0)))))
     = [onConnected, onError 13 ''system'' ''error'']
   \<and> issued (ssl_trace (SSLSession_handshake_handler linux_openssl (make_error_code 13 system_category)
      (state_after (SSLSession_Connect no_failure (SSLSession 3 7 False True 0 0)))))
     = [async_handshake, async_shutdown]
   \<and> count_list (callbacks (ssl_trace (last (ssl_states linux_openssl no_failure
        [ssl_shutdown_completion (make_error_code 0 system_category), ssl_Connect_call]
        (SSLSession_handshake_handler linux_openssl (make_error_code 13 system_category)
           (state_after (SSLSession_Connect no_failure (SSLSession 3 7 False True 0 0))))))))
        onHandshaked = 0"
proof -
  let ?w = "state_after (SSLSession_Connect no_failure (SSLSession 3 7 False True 0 0))"
  let ?ops = "[ssl_shutdown_completion (make_error_code 0 system_category), ssl_Connect_call]"
  have w: "?w = (SSLSession 3 7 False True 0 0)
                  \<lparr>ssl_connected := True,
                    ssl_trace := [Call onConnected
                                    (ssl_session.truncate
                                       ((SSLSession 3 7 False True 0 0)\<lparr>ssl_connected := True\<rparr>)),
                                  Async strand async_handshake]\<rparr>"
    by (simp add: SSLSession_Connect_def SSLSession_def state_after_def ssl_call_def ssl_async_def
          ssl_emit_def ssl_serializer_def Let_def ssl_session.truncate_def no_failure_def)
  have a: "\<not> ssl_handshaked ?w" and b: "\<not> ssl_reciving ?w" and g: "ssl_connected ?w"
    unfolding w by (simp_all add: SSLSession_def)
  have c: "\<not> is_error (make_error_code 0 system_category)"
    and d: "is_error (make_error_code 13 system_category)"
    by (simp_all add: is_error_def)
  have e: "\<forall>op \<in> set ?ops. \<not> is_handshake_completion op" by simp
  have f: "count_list (callbacks (ssl_trace ?w)) onHandshaked = 0"
    unfolding w by simp
  have tr: "callbacks (ssl_trace ?w) = [onConnected]" "issued (ssl_trace ?w) = [async_handshake]"
    "length (ssl_recive_buffer ?w) = 4"
    unfolding w by (simp_all add: SSLSession_def)
  note ok = handshake_handler_outcomes [of linux_openssl "make_error_code 0 system_category" ?w
              "[]" linux_openssl no_failure, THEN conjunct1]
  note err = handshake_handler_outcomes [of linux_openssl "make_error_code 13 system_category" ?w
              ?ops linux_openssl no_failure]
  have 1: "callbacks (ssl_trace (SSLSession_handshake_handler linux_openssl
             (make_error_code 0 system_category) ?w)) = [onConnected, onHandshaked, onEmpty]"
    unfolding ok using a b c tr by simp
  have 2: "issued (ssl_trace (SSLSession_handshake_handler linux_openssl
             (make_error_code 0 system_category) ?w)) = [async_handshake, async_read_some 4]"
    unfolding ok using a b c tr by simp
  have 3: "callbacks (ssl_trace (SSLSession_handshake_handler linux_openssl
             (make_error_code 13 system_category) ?w))
           = [onConnected, onError 13 ''system'' ''error'']"
    unfolding err [THEN conjunct1] using a d g tr by (simp add: linux_openssl_def)
  have 4: "issued (ssl_trace (SSLSession_handshake_handler linux_openssl
             (make_error_code 13 system_category) ?w)) = [async_handshake, async_shutdown]"
    unfolding err [THEN conjunct1] using a d g tr by (simp add: linux_openssl_def)
  have "last (ssl_states linux_openssl no_failure ?ops
          (SSLSession_handshake_handler linux_openssl (make_error_code 13 system_category) ?w))
        \<in> set (ssl_states linux_openssl no_failure ?ops
          (SSLSession_handshake_handler linux_openssl (make_error_code 13 system_category) ?w))"
    by (rule last_in_set) simp
  with err d e f have 5: "count_list (callbacks (ssl_trace (last (ssl_states linux_openssl no_failure ?ops
          (SSLSession_handshake_handler linux_openssl (make_error_code 13 system_category) ?w)))))
          onHandshaked = 0"
    by metis
  from 1 2 3 4 5 show ?thesis by (intro conjI)
qed

section \<open>The receive buffer\<close>




lemma ssl_buffer_emit: "ssl_recive_buffer (ssl_emit e w) = ssl_recive_buffer w"
  by (simp add: ssl_emit_def)

lemma ssl_buffer_call: "ssl_recive_buffer (ssl_call cb w) = ssl_recive_buffer w"
  by (simp add: ssl_call_def ssl_emit_def)

lemma ssl_buffer_async: "ssl_recive_buffer (ssl_async io w) = ssl_recive_buffer w"
  by (simp add: ssl_async_def ssl_emit_def)

lemma ssl_buffer_post: "ssl_recive_buffer (ssl_post t w) = ssl_recive_buffer w"
  by (simp add: ssl_post_def)

lemma ssl_buffer_SendError: "ssl_recive_buffer (SSLSession_SendError K ec w) = ssl_recive_buffer w"
  by (simp add: SSLSession_SendError_def ssl_buffer_call)

lemma ssl_buffer_disconnect_handler:
  "ssl_recive_buffer (SSLSession_disconnect_handler w) = ssl_recive_buffer w"
  by (simp add: SSLSession_disconnect_handler_def ssl_buffer_async)

lemma ssl_buffer_Disconnect:
  "ssl_recive_buffer (snd (SSLSession_Disconnect a b w)) = ssl_recive_buffer w"
  by (simp add: SSLSession_Disconnect_def ssl_buffer_disconnect_handler ssl_buffer_post)

lemma ssl_buffer_TryReceive: "ssl_recive_buffer (SSLSession_TryReceive w) = ssl_recive_buffer w"
  by (simp add: SSLSession_TryReceive_def ssl_buffer_async)

lemma ssl_buffer_TrySend: "ssl_recive_buffer (SSLSession_TrySend w) = ssl_recive_buffer w"
  by (simp add: SSLSession_TrySend_def ssl_buffer_async ssl_buffer_call Let_def)

lemma ssl_buffer_shutdown_handler:
  "ssl_recive_buffer (SSLSession_shutdown_handler ec w) = ssl_recive_buffer w"
  by (simp add: SSLSession_shutdown_handler_def Let_def ssl_buffer_call ssl_buffer_emit
        SSLSession_ClearBuffers_def)

lemma ssl_buffer_handshake_handler:
  "ssl_recive_buffer (SSLSession_handshake_handler K ec w) = ssl_recive_buffer w"
  by (simp add: SSLSession_handshake_handler_def ssl_buffer_TryReceive ssl_buffer_call
        ssl_buffer_Disconnect ssl_buffer_SendError)

lemma ssl_buffer_write_handler:
  "ssl_recive_buffer (SSLSession_async_write_handler K ec k w) = ssl_recive_buffer w"
  by (simp add: SSLSession_async_write_handler_def Let_def ssl_buffer_TrySend ssl_buffer_call
        ssl_buffer_Disconnect ssl_buffer_SendError)

lemma ssl_buffer_Connect:
  "ssl_recive_buffer (case SSLSession_Connect fails w of Inl (e, w1) \<Rightarrow> w1 | Inr w1 \<Rightarrow> w1)
     = ssl_recive_buffer w"
  by (simp add: SSLSession_Connect_def Let_def ssl_buffer_call ssl_buffer_emit ssl_buffer_async)

lemma ssl_buffer_Send:
  "ssl_recive_buffer (snd (SSLSession_Send a buffer k w)) = ssl_recive_buffer w"
  by (simp add: SSLSession_Send_def Let_def ssl_buffer_TrySend ssl_buffer_post
           split: option.splits)

lemma ssl_buffer_run_next: "ssl_recive_buffer (ssl_run_next w) = ssl_recive_buffer w"
  by (simp add: ssl_run_next_def Let_def ssl_buffer_TrySend ssl_buffer_disconnect_handler
           split: list.splits task.splits)

lemma ssl_buffer_receive_handler:
  "ssl_recive_buffer (SSLSession_async_receive_handler K ec k w) =
     (if ssl_handshaked w \<and> k > 0 \<and> vsize (ssl_recive_buffer w) = k
      then vector_resize (unat (2 * k)) (ssl_recive_buffer w)
      else ssl_recive_buffer w)"
  by (simp add: SSLSession_async_receive_handler_def Let_def ssl_buffer_TryReceive ssl_buffer_call
        ssl_buffer_Disconnect ssl_buffer_SendError)


lemma ssl_step_buffer:
  "ssl_recive_buffer (ssl_step K fails op w) =
     (case op of
        ssl_receive_completion ec k \<Rightarrow>
          if ssl_handshaked w \<and> k > 0 \<and> vsize (ssl_recive_buffer w) = k
          then vector_resize (unat (2 * k)) (ssl_recive_buffer w)
          else ssl_recive_buffer w
      | _ \<Rightarrow> ssl_recive_buffer w)"
  by (cases op)
     (simp_all add: ssl_buffer_Connect ssl_buffer_Disconnect ssl_buffer_Send ssl_buffer_run_next
        ssl_buffer_handshake_handler ssl_buffer_shutdown_handler ssl_buffer_receive_handler
        ssl_buffer_write_handler)


lemma ssl_states_first: "w \<in> set (ssl_states K fails ops w)"
  by (cases ops) simp_all


lemma udp_buffer_emit: "udp_recive_buffer (udp_emit e w) = udp_recive_buffer w"
  by (simp add: udp_emit_def)

lemma udp_buffer_call: "udp_recive_buffer (udp_call cb w) = udp_recive_buffer w"
  by (simp add: udp_call_def udp_emit_def)

lemma udp_buffer_async: "udp_recive_buffer (udp_async io w) = udp_recive_buffer w"
  by (simp add: udp_async_def udp_emit_def)

lemma udp_buffer_post: "udp_recive_buffer (udp_post t w) = udp_recive_buffer w"
  by (simp add: udp_post_def)

lemma udp_buffer_SendError: "udp_recive_buffer (UDPClient_SendError K ec w) = udp_recive_buffer w"
  by (simp add: UDPClient_SendError_def udp_buffer_call)

lemma udp_buffer_TryReceive: "udp_recive_buffer (UDPClient_TryReceive w) = udp_recive_buffer w"
  by (simp add: UDPClient_TryReceive_def udp_buffer_async)

lemma udp_buffer_disconnect_handler:
  "udp_recive_buffer (UDPClient_disconnect_handler w) = udp_recive_buffer w"
  by (simp add: UDPClient_disconnect_handler_def Let_def udp_buffer_call udp_buffer_emit)

lemma udp_buffer_Disconnect:
  "udp_recive_buffer (snd (UDPClient_Disconnect a b w)) = udp_recive_buffer w"
  by (simp add: UDPClient_Disconnect_def udp_buffer_disconnect_handler udp_buffer_post)

lemma udp_buffer_Connect: "udp_recive_buffer (snd (UDPClient_Connect w)) = udp_recive_buffer w"
  by (simp add: UDPClient_Connect_def udp_buffer_post)

lemma udp_buffer_connect_handler:
  "udp_recive_buffer
     (case UDPClient_connect_handler posix fails w of Inl (e, w1) \<Rightarrow> w1 | Inr w1 \<Rightarrow> w1)
     = udp_recive_buffer w"
  by (simp add: UDPClient_connect_handler_def udp_socket_def Let_def udp_buffer_TryReceive
        udp_buffer_call udp_buffer_emit)

lemma udp_buffer_Send_to:
  "udp_recive_buffer (snd (UDPClient_Send_to K a r ep buffer k w)) = udp_recive_buffer w"
  by (simp add: UDPClient_Send_to_def Let_def udp_buffer_Disconnect udp_buffer_SendError
        udp_buffer_call udp_buffer_emit split: option.splits)

lemma udp_buffer_run_next: "udp_recive_buffer (udp_run_next posix fails w) = udp_recive_buffer w"
proof (cases "udp_posted w")
  case Nil
  then show ?thesis by (simp add: udp_run_next_def)
next
  case (Cons st rest)
  obtain s t where st: "st = (s, t)" by (cases st)
  show ?thesis
  proof (cases t)
    case connect_handler
    with Cons st show ?thesis
      using udp_buffer_connect_handler [of posix fails "w\<lparr>udp_posted := rest\<rparr>"]
      by (simp add: udp_run_next_def)
  next
    case send_handler
    with Cons st show ?thesis by (simp add: udp_run_next_def)
  next
    case disconnect_handler
    with Cons st show ?thesis by (simp add: udp_run_next_def udp_buffer_disconnect_handler)
  qed
qed

lemma udp_buffer_receive_handler:
  "udp_recive_buffer (UDPClient_async_receive_handler K ec k w) =
     (if udp_connected w \<and> k > 0 \<and> vsize (udp_recive_buffer w) = k
      then vector_resize (unat (2 * k)) (udp_recive_buffer w)
      else udp_recive_buffer w)"
  by (simp add: UDPClient_async_receive_handler_def Let_def udp_buffer_TryReceive udp_buffer_call
        udp_buffer_Disconnect udp_buffer_SendError)


lemma udp_step_buffer:
  "udp_recive_buffer (udp_step K posix fails op w) =
     (case op of
        udp_receive_completion ec k \<Rightarrow>
          if udp_connected w \<and> k > 0 \<and> vsize (udp_recive_buffer w) = k
          then vector_resize (unat (2 * k)) (udp_recive_buffer w)
          else udp_recive_buffer w
      | _ \<Rightarrow> udp_recive_buffer w)"
  by (cases op)
     (simp_all add: udp_buffer_Connect udp_buffer_Disconnect udp_buffer_Send_to
        udp_buffer_run_next udp_buffer_receive_handler)





section \<open>Connecting the UDP client\<close>

text \<open>
  C7 as stated does not hold. The UDP client has no \<^verbatim>\<open>onEmpty\<close>: with every socket call
  succeeding, the connect handler of a fresh client calls \<^verbatim>\<open>onConnected\<close> and nothing
  else before it issues the first read. And the read is started by \<^verbatim>\<open>TryReceive\<close>, which
  does nothing while a read is marked outstanding: on a client whose earlier read has
  been aborted by \<^verbatim>\<open>Disconnect\<close> but has not completed yet, the handler connects and
  starts no read.
\<close>

theorem UDP_connect_handler_emits_no_onEmpty:
  "callbacks (udp_trace (state_after
      (UDPClient_connect_handler True no_failure (UDPClient 3 7 False (''127.0.0.1'', 3333)))))
     = [onConnected]
   \<and> onEmpty \<notin> set (callbacks (udp_trace (state_after
      (UDPClient_connect_handler True no_failure (UDPClient 3 7 False (''127.0.0.1'', 3333))))))
   \<and> issued (udp_trace (state_after
      (UDPClient_connect_handler True no_failure (UDPClient 3 7 False (''127.0.0.1'', 3333)))))
     = [async_receive_from 4]
   \<and> callbacks (udp_trace (state_after
      (UDPClient_connect_handler True no_failure
         ((UDPClient 3 7 False (''127.0.0.1'', 3333))\<lparr>udp_reciving := True\<rparr>))))
     = [onConnected]
   \<and> issued (udp_trace (state_after
      (UDPClient_connect_handler True no_failure
         ((UDPClient 3 7 False (''127.0.0.1'', 3333))\<lparr>udp_reciving := True\<rparr>))))
     = []"
  by (simp add: UDPClient_connect_handler_def udp_socket_def UDPClient_def Let_def
        UDPClient_TryReceive_def udp_call_def udp_async_def udp_emit_def no_failure_def
        state_after_def)

text \<open>
  C7, amended. The connect handler of a UDP client does nothing when the client is
  already connected, and throws when the socket open fails. Otherwise, when the socket
  calls it makes succeed (open, the reuse options that are set, bind), it opens,
  configures and binds the socket, resets the four statistics counters to zero, sets
  connected, calls \<^verbatim>\<open>onConnected\<close>, which sees the counters at zero and the client
  connected, and calls \<^verbatim>\<open>TryReceive\<close>, which starts the first read unless a read is
  still marked outstanding. It calls no \<^verbatim>\<open>onEmpty\<close>.
\<close>

theorem UDP_connect_handler_connects:
  assumes "\<not> fails op_open"
    and "udp_option_reuse_address w \<longrightarrow> \<not> fails op_set_reuse_address"
    and "posix \<and> udp_option_reuse_port w \<longrightarrow> \<not> fails op_set_reuse_port"
    and "\<not> fails (if udp_option_multicast w then op_bind_endpoint else op_bind_any)"
  shows "UDPClient_connect_handler posix fails w =
           (if udp_connected w then Inr w
            else
              Inr (w\<lparr>udp_datagrams_sent := 0, udp_datagrams_received := 0, udp_bytes_sent := 0,
                     udp_bytes_received := 0, udp_connected := True, udp_reciving := True,
                     udp_trace := udp_trace w
                       @ [Socket op_open]
                       @ (if udp_option_reuse_address w then [Socket op_set_reuse_address] else [])
                       @ (if posix \<and> udp_option_reuse_port w then [Socket op_set_reuse_port] else [])
                       @ [Socket (if udp_option_multicast w then op_bind_endpoint else op_bind_any),
                          Call onConnected
                            (udp_client.truncate
                               (w\<lparr>udp_datagrams_sent := 0, udp_datagrams_received := 0,
                                  udp_bytes_sent := 0, udp_bytes_received := 0,
                                  udp_connected := True\<rparr>))]
                       @ (if udp_reciving w then []
                          else [Async (udp_serializer w)
                                  (async_receive_from (length (udp_recive_buffer w)))])\<rparr>))
         \<and> callbacks (udp_trace (state_after (UDPClient_connect_handler posix fails w)))
             = callbacks (udp_trace w) @ (if udp_connected w then [] else [onConnected])
         \<and> (\<not> udp_connected w \<longrightarrow>
              UDPClient_connect_handler posix (fails (op_open := True)) w
                = Inl (system_error op_open, w))"
proof -
  have eq: "UDPClient_connect_handler posix fails w =
           (if udp_connected w then Inr w
            else
              Inr (w\<lparr>udp_datagrams_sent := 0, udp_datagrams_received := 0, udp_bytes_sent := 0,
                     udp_bytes_received := 0, udp_connected := True, udp_reciving := True,
                     udp_trace := udp_trace w
                       @ [Socket op_open]
                       @ (if udp_option_reuse_address w then [Socket op_set_reuse_address] else [])
                       @ (if posix \<and> udp_option_reuse_port w then [Socket op_set_reuse_port] else [])
                       @ [Socket (if udp_option_multicast w then op_bind_endpoint else op_bind_any),
                          Call onConnected
                            (udp_client.truncate
                               (w\<lparr>udp_datagrams_sent := 0, udp_datagrams_received := 0,
                                  udp_bytes_sent := 0, udp_bytes_received := 0,
                                  udp_connected := True\<rparr>))]
                       @ (if udp_reciving w then []
                          else [Async (udp_serializer w)
                                  (async_receive_from (length (udp_recive_buffer w)))])\<rparr>))"
    using assms
    by (cases "udp_reciving w")
       (simp_all add: UDPClient_connect_handler_def udp_socket_def Let_def UDPClient_TryReceive_def
          udp_call_def udp_async_def udp_emit_def udp_serializer_def udp_client.truncate_def)
  have none: "callbacks (udp_trace (state_after (UDPClient_connect_handler posix fails w)))
             = callbacks (udp_trace w) @ (if udp_connected w then [] else [onConnected])"
    unfolding eq by (simp add: state_after_def)
  have thrown: "\<not> udp_connected w \<longrightarrow>
              UDPClient_connect_handler posix (fails (op_open := True)) w
                = Inl (system_error op_open, w)"
    by (simp add: UDPClient_connect_handler_def udp_socket_def)
  from eq none thrown show ?thesis by (intro conjI)
qed

theorem UDP_connect_handler_connects_witness:
  "UDPClient_connect_handler True no_failure
     ((UDPClient 3 7 False (''127.0.0.1'', 3333))\<lparr>udp_bytes_sent := 5, udp_option_multicast := True\<rparr>)
   = Inr ((UDPClient 3 7 False (''127.0.0.1'', 3333))
       \<lparr>udp_connected := True, udp_reciving := True, udp_option_multicast := True,
         udp_trace :=
           [Socket op_open, Socket op_bind_endpoint,
            Call onConnected
              (udp_client.truncate
                 ((UDPClient 3 7 False (''127.0.0.1'', 3333))
                    \<lparr>udp_connected := True, udp_option_multicast := True\<rparr>)),
            Async io_service (async_receive_from 4)]\<rparr>)"
proof -
  let ?w = "(UDPClient 3 7 False (''127.0.0.1'', 3333))
              \<lparr>udp_bytes_sent := 5, udp_option_multicast := True\<rparr>"
  have c: "\<not> no_failure op_open"
    by (simp add: no_failure_def)
  have d: "udp_option_reuse_address ?w \<longrightarrow> \<not> no_failure op_set_reuse_address"
    by (simp add: no_failure_def)
  have e: "True \<and> udp_option_reuse_port ?w \<longrightarrow> \<not> no_failure op_set_reuse_port"
    by (simp add: no_failure_def)
  have f: "\<not> no_failure (if udp_option_multicast ?w then op_bind_endpoint else op_bind_any)"
    by (simp add: no_failure_def)
  show ?thesis
    using UDP_connect_handler_connects [OF c d e f, THEN conjunct1]
    by (simp add: UDPClient_def udp_serializer_def udp_client.truncate_def)
qed

section \<open>The wait of Reconnect\<close>














end
